theory Spec2Isabelle
  imports Complex_Main
begin

section \<open>Python values, exceptions and the outside world\<close>

text \<open>
  The producer package is Python. A call either returns a value or raises; both outcomes
  leave a state behind (attributes already assigned, random draws already consumed,
  counters already incremented), so every effectful function of the model returns a pair:
  the outcome (\<open>Inl\<close> an exception, \<open>Inr\<close> the returned value) and the state after it.
  Python \<open>float\<close>s are idealised as \<open>real\<close>s and Python \<open>int\<close>s are \<open>int\<close>.
\<close>

datatype py_error =
  ValueError | AttributeError | IndexError | KeyError | ZeroDivisionError
  | BotoCoreError | ClientError

datatype provider = Company | City | StateAbbr | PersonName | Email | PhoneNumber

text \<open>
  What the generator reads from outside the repository. The module \<open>random\<close> and the
  \<open>Faker\<close> instance each own a pseudo-random generator, modelled by the sequence of raw
  draws it is going to yield and the number of draws consumed so far. Seeding replaces
  that sequence by the one the seed determines (\<open>seeded\<close>). \<open>uuid.uuid4()\<close> reads the
  operating system's entropy, which no seed controls. The remaining fields are the
  library's fixed maps from a raw draw to a value; no function of the model updates them.
\<close>

record world =
  seeded :: "int \<Rightarrow> nat \<Rightarrow> nat"
  rand_draws :: "nat \<Rightarrow> nat"
  rand_used :: nat
  faker_draws :: "nat \<Rightarrow> nat"
  faker_used :: nat
  os_entropy :: "nat \<Rightarrow> nat"
  entropy_used :: nat
  utc_clock :: "nat \<Rightarrow> int"
  clock_reads :: nat
  normal_variate :: "nat \<Rightarrow> real"
  uuid_hex :: "nat \<Rightarrow> string"
  fake_text :: "provider \<Rightarrow> nat \<Rightarrow> string"
  fake_lat :: "nat \<Rightarrow> real"
  fake_lon :: "nat \<Rightarrow> real"

text \<open>\<open>random.seed(s)\<close> and \<open>Faker.seed(s)\<close>.\<close>

definition random_seed :: "int \<Rightarrow> world \<Rightarrow> world" where
  "random_seed s w = w\<lparr>rand_draws := seeded w s, rand_used := 0\<rparr>"

definition Faker_seed :: "int \<Rightarrow> world \<Rightarrow> world" where
  "Faker_seed s w = w\<lparr>faker_draws := seeded w s, faker_used := 0\<rparr>"

text \<open>One raw draw of the module \<open>random\<close>.\<close>

definition rand_next :: "world \<Rightarrow> nat \<times> world" where
  "rand_next w = (rand_draws w (rand_used w), w\<lparr>rand_used := Suc (rand_used w)\<rparr>)"


text \<open>\<open>random.choice(seq)\<close>: IndexError on an empty sequence, else the element at a
  drawn index below the length.\<close>

definition random_choice :: "'a list \<Rightarrow> world \<Rightarrow> (py_error + 'a) \<times> world" where
  "random_choice xs w =
     (if xs = [] then (Inl IndexError, w)
      else (let (r, w') = rand_next w in (Inr (xs ! (r mod length xs)), w')))"




text \<open>\<open>uuid.uuid4().hex\<close>: 32 hexadecimal digits made from fresh OS entropy.\<close>

definition uuid4_hex :: "world \<Rightarrow> string \<times> world" where
  "uuid4_hex w =
     (uuid_hex w (os_entropy w (entropy_used w)), w\<lparr>entropy_used := Suc (entropy_used w)\<rparr>)"

text \<open>A text provider of Faker (\<open>fake.company()\<close>, \<open>fake.city()\<close>, ...) and its
  coordinate providers (\<open>float(fake.latitude())\<close>, \<open>float(fake.longitude())\<close>).\<close>

definition fake :: "provider \<Rightarrow> world \<Rightarrow> string \<times> world" where
  "fake p w =
     (fake_text w p (faker_draws w (faker_used w)), w\<lparr>faker_used := Suc (faker_used w)\<rparr>)"

definition fake_latitude :: "world \<Rightarrow> real \<times> world" where
  "fake_latitude w =
     (fake_lat w (faker_draws w (faker_used w)), w\<lparr>faker_used := Suc (faker_used w)\<rparr>)"

definition fake_longitude :: "world \<Rightarrow> real \<times> world" where
  "fake_longitude w =
     (fake_lon w (faker_draws w (faker_used w)), w\<lparr>faker_used := Suc (faker_used w)\<rparr>)"




section \<open>data_generator.py: the transaction generator\<close>

record location =
  city :: string
  state :: string
  country :: string
  latitude :: real
  longitude :: real

record merchant =
  merchant_id :: string
  merchant_name :: string
  merchant_category :: string
  merchant_location :: location

record customer =
  customer_id :: string
  customer_name :: string
  customer_email :: string
  customer_phone :: string
  home_location :: location


text \<open>
  A \<open>TransactionGenerator\<close> object. \<open>merchants\<close>, \<open>customers\<close> and \<open>categories\<close> are
  assigned in the course of \<open>__init__\<close>: \<open>None\<close> is an attribute not assigned yet, and
  reading it raises AttributeError.
\<close>

record generator =
  fraud_ratio :: real
  num_merchants :: int
  num_customers :: int
  merchants :: "merchant list option"
  customers :: "customer list option"
  categories :: "string list option"

text \<open>The body of the loop of \<open>_generate_merchants\<close>: the dictionary's values are
  evaluated in the order they are written.\<close>

definition make_merchant :: "generator \<Rightarrow> world \<Rightarrow> (py_error + merchant) \<times> world" where
  "make_merchant self w =
     (let (u, w1) = uuid4_hex w;
          (name, w2) = fake Company w1
      in case categories self of
           None \<Rightarrow> (Inl AttributeError, w2)
         | Some cats \<Rightarrow>
             (case random_choice cats w2 of
                (Inl e, w3) \<Rightarrow> (Inl e, w3)
              | (Inr cat, w3) \<Rightarrow>
                  (let (c, w4) = fake City w3;
                       (st, w5) = fake StateAbbr w4;
                       (lat, w6) = fake_latitude w5;
                       (lon, w7) = fake_longitude w6
                   in (Inr \<lparr>merchant_id = CHR ''M'' # take 12 u,
                            merchant_name = name,
                            merchant_category = cat,
                            merchant_location =
                              \<lparr>city = c, state = st, country = ''US'',
                               latitude = lat, longitude = lon\<rparr>\<rparr>, w7))))"

text \<open>\<open>for _ in range(n)\<close>, appending to the list built so far.\<close>

fun merchants_loop ::
  "nat \<Rightarrow> generator \<Rightarrow> merchant list \<Rightarrow> world \<Rightarrow> (py_error + merchant list) \<times> world" where
  "merchants_loop 0 self acc w = (Inr acc, w)"
| "merchants_loop (Suc n) self acc w =
     (case make_merchant self w of
        (Inl e, w') \<Rightarrow> (Inl e, w')
      | (Inr m, w') \<Rightarrow> merchants_loop n self (acc @ [m]) w')"

definition generate_merchants :: "generator \<Rightarrow> world \<Rightarrow> (py_error + merchant list) \<times> world" where
  "generate_merchants self w = merchants_loop (nat (num_merchants self)) self [] w"

definition make_customer :: "generator \<Rightarrow> world \<Rightarrow> (py_error + customer) \<times> world" where
  "make_customer self w =
     (let (u, w1) = uuid4_hex w;
          (name, w2) = fake PersonName w1;
          (email, w3) = fake Email w2;
          (phone, w4) = fake PhoneNumber w3;
          (c, w5) = fake City w4;
          (st, w6) = fake StateAbbr w5;
          (lat, w7) = fake_latitude w6;
          (lon, w8) = fake_longitude w7
      in (Inr \<lparr>customer_id = CHR ''C'' # take 12 u,
               customer_name = name,
               customer_email = email,
               customer_phone = phone,
               home_location =
                 \<lparr>city = c, state = st, country = ''US'',
                  latitude = lat, longitude = lon\<rparr>\<rparr>, w8))"

fun customers_loop ::
  "nat \<Rightarrow> generator \<Rightarrow> customer list \<Rightarrow> world \<Rightarrow> (py_error + customer list) \<times> world" where
  "customers_loop 0 self acc w = (Inr acc, w)"
| "customers_loop (Suc n) self acc w =
     (case make_customer self w of
        (Inl e, w') \<Rightarrow> (Inl e, w')
      | (Inr c, w') \<Rightarrow> customers_loop n self (acc @ [c]) w')"

definition generate_customers :: "generator \<Rightarrow> world \<Rightarrow> (py_error + customer list) \<times> world" where
  "generate_customers self w = customers_loop (nat (num_customers self)) self [] w"

definition transaction_categories :: "string list" where
  "transaction_categories =
     [''grocery'', ''restaurant'', ''gas_station'', ''online_retail'', ''entertainment'',
      ''travel'', ''electronics'', ''clothing'', ''healthcare'', ''utilities'']"

text \<open>
  \<open>TransactionGenerator.__init__(fraud_ratio, num_merchants, num_customers, seed)\<close>,
  statement by statement: the range check, the three plain attributes, the seeding, the
  merchant pool, the customer pool, and only then \<open>self.categories\<close>.
\<close>

definition TransactionGenerator_init ::
  "real \<Rightarrow> int \<Rightarrow> int \<Rightarrow> int option \<Rightarrow> world \<Rightarrow> (py_error + generator) \<times> world" where
  "TransactionGenerator_init fr nm nc seed w =
     (if \<not> (0 \<le> fr \<and> fr \<le> 1) then (Inl ValueError, w)
      else
        (let self0 = \<lparr>fraud_ratio = fr, num_merchants = nm, num_customers = nc,
                      merchants = None, customers = None, categories = None\<rparr>;
             w1 = (case seed of None \<Rightarrow> w | Some s \<Rightarrow> random_seed s (Faker_seed s w))
         in case generate_merchants self0 w1 of
              (Inl e, w2) \<Rightarrow> (Inl e, w2)
            | (Inr ms, w2) \<Rightarrow>
                (let self1 = self0\<lparr>merchants := Some ms\<rparr>
                 in case generate_customers self1 w2 of
                      (Inl e, w3) \<Rightarrow> (Inl e, w3)
                    | (Inr cs, w3) \<Rightarrow>
                        (Inr (self1\<lparr>customers := Some cs,
                                    categories := Some transaction_categories\<rparr>), w3))))"













section \<open>kinesis_producer.py: the delivery client\<close>

text \<open>
  What \<open>client.put_records\<close> sends and receives. A response is the dictionary boto3
  returns: \<open>response.get("FailedRecordCount", 0)\<close> reads an optional key,
  \<open>response["Records"]\<close> raises KeyError when the key is missing, and an entry of
  \<open>Records\<close> is a failed one when it has the key \<open>ErrorCode\<close>.
\<close>

record kinesis_record =
  Data :: string
  PartitionKey :: string

record response_record =
  ErrorCode :: "string option"
  ErrorMessage :: "string option"

record put_records_response =
  FailedRecordCount :: "int option"
  Records :: "response_record list option"

text \<open>
  What lies outside the repository, for records of any type \<open>'r\<close>: the service (its
  answer to a call may depend on the calls made before it; \<open>Inl\<close> is the exception the
  client raises) and the JSON encoder: \<open>json_utf8 r\<close> is
  \<open>json.dumps(r, ensure_ascii=False).encode("utf-8")\<close>, \<open>json_size r\<close> is
  \<open>len(json.dumps(r).encode("utf-8"))\<close>, and \<open>field_str r k\<close> is
  \<open>str(r.get(k, "default"))\<close>.
\<close>

record 'r outside =
  put_records :: "kinesis_record list list \<Rightarrow> kinesis_record list \<Rightarrow> py_error + put_records_response"
  json_utf8 :: "'r \<Rightarrow> string"
  json_size :: "'r \<Rightarrow> nat"
  field_str :: "'r \<Rightarrow> string \<Rightarrow> string"

record metrics =
  total_records_sent :: int
  total_records_failed :: int
  total_batches_sent :: int
  total_bytes_sent :: int

text \<open>
  A \<open>KinesisProducer\<close> object, together with the two traces its calls leave outside it:
  \<open>requests\<close>, the batches handed to \<open>client.put_records\<close> so far (oldest first), and
  \<open>slept\<close>, the seconds spent in \<open>time.sleep\<close>.
\<close>

record producer =
  stream_name :: string
  partition_key_field :: string
  max_retries :: int
  retry_delay :: real
  metrics :: metrics
  requests :: "kinesis_record list list"
  slept :: real

record batch_result =
  successful :: int
  failed :: int

text \<open>The \<open>except (BotoCoreError, ClientError)\<close> clause of \<open>put_records_batch\<close>: it
  handles these two exceptions and lets any other one pass.\<close>

definition except_clause ::
  "'r list \<Rightarrow> py_error \<Rightarrow> producer \<Rightarrow> (py_error + batch_result) \<times> producer" where
  "except_clause records e self =
     (if e = BotoCoreError \<or> e = ClientError then
        (Inr \<lparr>successful = 0, failed = int (length records)\<rparr>,
         self\<lparr>metrics := (metrics self)\<lparr>total_records_failed :=
                  total_records_failed (metrics self) + int (length records)\<rparr>\<rparr>)
      else (Inl e, self))"

text \<open>The first loop of \<open>_handle_failed_records\<close>: over \<open>enumerate(response_records)\<close>,
  collecting \<open>original_records[idx]\<close> for every entry that has an error code.\<close>

fun collect_failed ::
  "'r list \<Rightarrow> nat \<Rightarrow> response_record list \<Rightarrow> 'r list \<Rightarrow> py_error + 'r list" where
  "collect_failed original_records idx [] failed_records = Inr failed_records"
| "collect_failed original_records idx (response_record # rest) failed_records =
     (if ErrorCode response_record \<noteq> None then
        (if idx < length original_records then
           collect_failed original_records (Suc idx) rest
             (failed_records @ [original_records ! idx])
         else Inl IndexError)
      else collect_failed original_records (Suc idx) rest failed_records)"

text \<open>The four statements under \<open># Update metrics\<close> and \<open># Calculate bytes sent\<close>.\<close>

definition update_metrics :: "int \<Rightarrow> int \<Rightarrow> int \<Rightarrow> producer \<Rightarrow> producer" where
  "update_metrics successful_count failed_count total_bytes self =
     self\<lparr>metrics := (metrics self)
            \<lparr>total_records_sent := total_records_sent (metrics self) + successful_count,
             total_records_failed := total_records_failed (metrics self) + failed_count,
             total_batches_sent := total_batches_sent (metrics self) + 1,
             total_bytes_sent := total_bytes_sent (metrics self) + total_bytes\<rparr>\<rparr>"

text \<open>The loop under \<open># Prepare batch\<close>: payload and partition key of every record.\<close>

definition prepare_batch :: "'r outside \<Rightarrow> producer \<Rightarrow> 'r list \<Rightarrow> kinesis_record list" where
  "prepare_batch api self records =
     map (\<lambda>record. \<lparr>Data = json_utf8 api record,
                     PartitionKey = field_str api record (partition_key_field self)\<rparr>)
       records"

text \<open>
  \<open>put_records_batch(records)\<close>. The call of \<open>_handle_failed_records\<close> is written out in
  place (its loop, the sleep, the recursive call), since the two methods call each other;
  \<open>handle_failed_records\<close> below is the method on its own. The recursion has no bound in
  the source, so the function is partial: \<open>None\<close> is a call that never returns
  (the model has no stack limit; CPython would end such a call with RecursionError, which
  the \<open>except\<close> clause does not handle), and \<open>Option.bind\<close> passes the outcome of a
  call that does return to what follows it. The records are taken to be serialisable:
  \<open>json.dumps\<close> does not raise.
\<close>

partial_function (option) put_records_batch ::
  "'r outside \<Rightarrow> 'r list \<Rightarrow> producer \<Rightarrow> ((py_error + batch_result) \<times> producer) option" where
  "put_records_batch api records self =
     (if records = [] then Some (Inr \<lparr>successful = 0, failed = 0\<rparr>, self)
      else
        (let kinesis_records = prepare_batch api self records;
             self1 = self\<lparr>requests := requests self @ [kinesis_records]\<rparr>
         in case put_records api (requests self) kinesis_records of
              Inl e \<Rightarrow> Some (except_clause records e self1)
            | Inr response \<Rightarrow>
                (let failed_count =
                       (case FailedRecordCount response of None \<Rightarrow> 0 | Some c \<Rightarrow> c);
                     successful_count = int (length records) - failed_count;
                     total_bytes = sum_list (map (\<lambda>r. int (json_size api r)) records);
                     self2 = update_metrics successful_count failed_count total_bytes self1;
                     result = \<lparr>successful = successful_count, failed = failed_count\<rparr>
                 in if failed_count > 0 then
                      (case Records response of
                         None \<Rightarrow> Some (except_clause records KeyError self2)
                       | Some response_records \<Rightarrow>
                           (case collect_failed records 0 response_records [] of
                              Inl e \<Rightarrow> Some (except_clause records e self2)
                            | Inr failed_records \<Rightarrow>
                                if failed_records \<noteq> [] then
                                  Option.bind
                                    (put_records_batch api failed_records
                                       (self2\<lparr>slept := slept self2 + retry_delay self2\<rparr>))
                                    (\<lambda>retry. case retry of
                                       (Inl e, self3) \<Rightarrow> Some (except_clause records e self3)
                                     | (Inr retried, self3) \<Rightarrow> Some (Inr result, self3))
                                else Some (Inr result, self2)))
                    else Some (Inr result, self2))))"

text \<open>\<open>_handle_failed_records(original_records, response_records)\<close>; it returns nothing.\<close>

definition handle_failed_records ::
  "'r outside \<Rightarrow> 'r list \<Rightarrow> response_record list \<Rightarrow> producer
     \<Rightarrow> ((py_error + unit) \<times> producer) option" where
  "handle_failed_records api original_records response_records self =
     (case collect_failed original_records 0 response_records [] of
        Inl e \<Rightarrow> Some (Inl e, self)
      | Inr failed_records \<Rightarrow>
          if failed_records \<noteq> [] then
            (case put_records_batch api failed_records
                    (self\<lparr>slept := slept self + retry_delay self\<rparr>) of
               None \<Rightarrow> None
             | Some (Inl e, self') \<Rightarrow> Some (Inl e, self')
             | Some (Inr retried, self') \<Rightarrow> Some (Inr (), self'))
          else Some (Inr (), self))"


section \<open>main.py: the producer loop\<close>




text \<open>The final log line \<open>Producer finished\<close>, without its two wall-clock fields.\<close>

record final_report =
  total_records :: int
  batches :: nat
  total_bytes :: int
  failed_records :: int


section \<open>The specification's reading of the retried subset\<close>

text \<open>
  The specification identifies the failed records ``by matching response index back to
  the original input'': pair every record with the response entry at its index and keep
  the records whose entry has an error code. \<open>collect_failed\<close> above is the source's
  loop; \<open>collect_failed_subset\<close> below relates the two.
\<close>

definition failed_subset :: "'r list \<Rightarrow> response_record list \<Rightarrow> 'r list" where
  "failed_subset records response_records =
     map fst (filter (\<lambda>(r, rr). ErrorCode rr \<noteq> None) (zip records response_records))"

section \<open>Concrete inputs\<close>

text \<open>A world whose generators yield zeros, whose entropy counts up and whose clock
  stands at the epoch.\<close>

definition world0 :: world where
  "world0 =
     \<lparr>seeded = (\<lambda>s i. nat \<bar>s\<bar> + i), rand_draws = (\<lambda>i. 0), rand_used = 0,
      faker_draws = (\<lambda>i. 0), faker_used = 0, os_entropy = (\<lambda>i. i), entropy_used = 0,
      utc_clock = (\<lambda>i. 0), clock_reads = 0, normal_variate = (\<lambda>r. 0),
      uuid_hex = (\<lambda>n. replicate 32 CHR ''0''), fake_text = (\<lambda>p r. ''x''),
      fake_lat = (\<lambda>r. 0), fake_lon = (\<lambda>r. 0)\<rparr>"




text \<open>The object \<open>TransactionGenerator(fraud_ratio=0.05, num_merchants=0,
  num_customers=0)\<close> constructs.\<close>

definition generator_empty :: generator where
  "generator_empty =
     \<lparr>fraud_ratio = 1 / 20, num_merchants = 0, num_customers = 0,
      merchants = Some [], customers = Some [],
      categories = Some transaction_categories\<rparr>"



text \<open>A freshly constructed \<open>KinesisProducer\<close> with the constructor's defaults.\<close>

definition producer0 :: producer where
  "producer0 =
     \<lparr>stream_name = ''fraud-transactions'', partition_key_field = ''transaction_id'',
      max_retries = 3, retry_delay = 1 / 2,
      metrics = \<lparr>total_records_sent = 0, total_records_failed = 0,
                  total_batches_sent = 0, total_bytes_sent = 0\<rparr>,
      requests = [], slept = 0\<rparr>"

definition ok_entry :: response_record where
  "ok_entry = \<lparr>ErrorCode = None, ErrorMessage = None\<rparr>"

definition bad_entry :: response_record where
  "bad_entry = \<lparr>ErrorCode = Some ''ProvisionedThroughputExceededException'',
                 ErrorMessage = Some ''Rate exceeded''\<rparr>"

text \<open>A service whose every call raises ClientError.\<close>

definition api_failing :: "'r outside" where
  "api_failing =
     \<lparr>put_records = (\<lambda>history request. Inl ClientError),
      json_utf8 = (\<lambda>r. ''{}''), json_size = (\<lambda>r. 2), field_str = (\<lambda>r k. ''default'')\<rparr>"


text \<open>A service that flags the records at indices 3 and 7 of the first batch of ten and
  accepts every later batch.\<close>

definition api_flaky :: "nat outside" where
  "api_flaky =
     \<lparr>put_records = (\<lambda>history request.
        if history = [] then
          Inr \<lparr>FailedRecordCount = Some 2,
               Records = Some [ok_entry, ok_entry, ok_entry, bad_entry, ok_entry,
                               ok_entry, ok_entry, bad_entry, ok_entry, ok_entry]\<rparr>
        else Inr \<lparr>FailedRecordCount = Some 0,
                  Records = Some (map (\<lambda>r. ok_entry) request)\<rparr>),
      json_utf8 = (\<lambda>r. ''{}''), json_size = (\<lambda>r. 2), field_str = (\<lambda>r k. ''default'')\<rparr>"

text \<open>The same first answer, and a ClientError on every later call.\<close>

definition api_flaky_then_down :: "nat outside" where
  "api_flaky_then_down =
     \<lparr>put_records = (\<lambda>history request.
        if history = [] then
          Inr \<lparr>FailedRecordCount = Some 2,
               Records = Some [ok_entry, ok_entry, ok_entry, bad_entry, ok_entry,
                               ok_entry, ok_entry, bad_entry, ok_entry, ok_entry]\<rparr>
        else Inl ClientError),
      json_utf8 = (\<lambda>r. ''{}''), json_size = (\<lambda>r. 2), field_str = (\<lambda>r k. ''default'')\<rparr>"

section \<open>Constructing a generator\<close>

lemma make_merchant_unset:
  "categories self = None \<Longrightarrow> \<exists>w'. make_merchant self w = (Inl AttributeError, w')"
  by (simp add: make_merchant_def split: prod.splits)

lemma merchants_loop_unset:
  assumes "categories self = None" "0 < n"
  shows "\<exists>w'. merchants_loop n self acc w = (Inl AttributeError, w')"
proof -
  obtain k where k: "n = Suc k" using assms(2) by (cases n) auto
  obtain w' where "make_merchant self w = (Inl AttributeError, w')"
    using make_merchant_unset[OF assms(1)] by blast
  then show ?thesis by (simp add: k)
qed

text \<open>
  With a fraud ratio in range and at least one merchant asked for, \<open>__init__\<close> reaches
  \<open>_generate_merchants\<close> while \<open>self.categories\<close> is still unassigned, and the first
  iteration's \<open>random.choice(self.categories)\<close> raises.
\<close>

lemma init_attribute_error:
  assumes "0 \<le> fr" "fr \<le> 1" "0 < nm"
  shows "fst (TransactionGenerator_init fr nm nc seed w) = Inl AttributeError"
proof -
  let ?w1 = "case seed of None \<Rightarrow> w | Some s \<Rightarrow> random_seed s (Faker_seed s w)"
  let ?self0 = "\<lparr>fraud_ratio = fr, num_merchants = nm, num_customers = nc, merchants = None,
            customers = None, categories = None\<rparr>"
  obtain w' where "merchants_loop (nat nm) ?self0 [] ?w1 = (Inl AttributeError, w')"
    using merchants_loop_unset[of ?self0 "nat nm" "[]" ?w1] assms(3) by auto
  then show ?thesis
    using assms(1,2)
    by (simp add: TransactionGenerator_init_def generate_merchants_def Let_def)
qed

text \<open>An out-of-range fraud ratio raises ValueError and leaves the world as it was: no
  seeding, no draw, no pool.\<close>

lemma init_value_error:
  "fr < 0 \<or> 1 < fr \<Longrightarrow> TransactionGenerator_init fr nm nc seed w = (Inl ValueError, w)"
  by (auto simp: TransactionGenerator_init_def)

text \<open>
  C1. The claim: for every fraud ratio in \<open>[0, 1]\<close> and positive counts, construction
  succeeds and builds the pools. The code at the arguments of the repository's own test
  \<open>test_generator_initialization\<close> (fraud ratio 0.1, 100 merchants, 200 customers, no
  seed), in any world: construction raises AttributeError.
\<close>

theorem init_in_range_raises_AttributeError:
  "fst (TransactionGenerator_init (1 / 10) 100 200 None w) = Inl AttributeError"
  by (rule init_attribute_error) simp_all

text \<open>
  C2. The claim: two generators constructed with the same seed give the same first
  transaction's merchant and customer identifiers. The code at the arguments of the
  repository's own test \<open>test_reproducibility_with_seed\<close> (seed 123, the defaults
  otherwise), in any two worlds: both constructions raise AttributeError, so neither
  generator exists to produce a transaction.
\<close>

theorem seeded_init_raises_AttributeError:
  "fst (TransactionGenerator_init (1 / 20) 1000 5000 (Some 123) w1) = Inl AttributeError \<and>
   fst (TransactionGenerator_init (1 / 20) 1000 5000 (Some 123) w2) = Inl AttributeError"
  by (simp add: init_attribute_error)

text \<open>
  Where a merchant is made at all (an object whose \<open>categories\<close> are assigned), its
  identifier is cut from \<open>uuid.uuid4()\<close>, that is from the OS entropy, which
  \<open>random.seed\<close> and \<open>Faker.seed\<close> leave alone.
\<close>

lemma merchant_id_from_os_entropy:
  assumes "make_merchant self (random_seed s (Faker_seed s w)) = (Inr m, w')"
  shows "merchant_id m = CHR ''M'' # take 12 (uuid_hex w (os_entropy w (entropy_used w)))"
  using assms
  by (auto simp: make_merchant_def uuid4_hex_def random_seed_def Faker_seed_def Let_def
      split: prod.splits option.splits sum.splits)

lemma make_customer_returns: "\<exists>c w'. make_customer self w = (Inr c, w')"
  by (simp add: make_customer_def split: prod.splits)

lemma customers_loop_returns:
  "\<exists>cs w'. customers_loop n self acc w = (Inr cs, w') \<and> length cs = length acc + n"
proof (induction n arbitrary: acc w)
  case 0
  then show ?case by simp
next
  case (Suc n)
  obtain c w1 where c: "make_customer self w = (Inr c, w1)"
    using make_customer_returns by blast
  from Suc.IH[of "acc @ [c]" w1] show ?case by (auto simp: c)
qed

text \<open>
  C8, as the claim states it, fails: with zero merchants and zero customers asked for,
  construction returns an object whose two pools are empty.
\<close>

theorem init_accepts_zero_counts:
  "TransactionGenerator_init (1 / 20) 0 0 None world0 =
     (Inr \<lparr>fraud_ratio = 1 / 20, num_merchants = 0, num_customers = 0, merchants = Some [],
           customers = Some [], categories = Some transaction_categories\<rparr>, world0)"
  by (simp add: TransactionGenerator_init_def generate_merchants_def generate_customers_def
      Let_def)

text \<open>
  C8, amended. \<open>__init__\<close> checks the fraud ratio and nothing else. With a fraud ratio
  in \<open>[0, 1]\<close> and \<open>num_merchants \<le> 0\<close> it returns an object, for any
  \<open>num_customers\<close> and any seed: the merchant pool is empty, and the customer pool has
  \<open>max(num_customers, 0)\<close> entries.
\<close>

theorem init_without_merchants_succeeds:
  assumes "0 \<le> fr" "fr \<le> 1" "nm \<le> 0"
  shows "\<exists>cs w'. TransactionGenerator_init fr nm nc seed w =
      (Inr \<lparr>fraud_ratio = fr, num_merchants = nm, num_customers = nc, merchants = Some [],
            customers = Some cs, categories = Some transaction_categories\<rparr>, w')
      \<and> length cs = nat nc"
proof -
  let ?w1 = "case seed of None \<Rightarrow> w | Some s \<Rightarrow> random_seed s (Faker_seed s w)"
  let ?self1 = "\<lparr>fraud_ratio = fr, num_merchants = nm, num_customers = nc, merchants = Some [],
            customers = None, categories = None\<rparr>"
  obtain cs w' where cs: "customers_loop (nat nc) ?self1 [] ?w1 = (Inr cs, w')"
      "length cs = nat nc"
    using customers_loop_returns[of "nat nc" ?self1 "[]" ?w1] by auto
  show ?thesis
    using assms cs
    by (simp add: TransactionGenerator_init_def generate_merchants_def generate_customers_def
        Let_def)
qed

theorem init_without_merchants_succeeds_witness:
  "\<exists>cs w'. TransactionGenerator_init (1 / 20) (- 1) 2 (Some 42) world0 =
      (Inr \<lparr>fraud_ratio = 1 / 20, num_merchants = - 1, num_customers = 2, merchants = Some [],
            customers = Some cs, categories = Some transaction_categories\<rparr>, w')
      \<and> length cs = 2"
  using init_without_merchants_succeeds[of "1 / 20" "- 1" 2 "Some 42" world0] by simp

section \<open>Transaction amounts\<close>

















section \<open>Fraud statistics\<close>






section \<open>Sending a batch\<close>

lemma collect_failed_zip:
  "idx + length rrs \<le> length orig \<Longrightarrow>
   collect_failed orig idx rrs acc = Inr (acc @ failed_subset (drop idx orig) rrs)"
proof (induction rrs arbitrary: idx acc)
  case Nil
  then show ?case by (simp add: failed_subset_def)
next
  case (Cons rr rest)
  then have lt: "idx < length orig" and le: "Suc idx + length rest \<le> length orig"
    by simp_all
  have d: "drop idx orig = orig ! idx # drop (Suc idx) orig"
    using lt by (simp add: Cons_nth_drop_Suc)
  show ?case
    using Cons.IH[OF le] lt by (simp add: d failed_subset_def)
qed

text \<open>When the response has no more entries than the batch has records, the source's
  loop collects exactly the subset the specification describes, in the batch's order.\<close>

lemma collect_failed_subset:
  "length rrs \<le> length records \<Longrightarrow>
   collect_failed records 0 rrs [] = Inr (failed_subset records rrs)"
  using collect_failed_zip[of 0 rrs records "[]"] by simp

text \<open>\<open>put_records_batch\<close> as the source writes it, through \<open>_handle_failed_records\<close>.\<close>

lemma put_records_batch_by_handler:
  "put_records_batch api records self =
     (if records = [] then Some (Inr \<lparr>successful = 0, failed = 0\<rparr>, self)
      else
        (let kinesis_records = prepare_batch api self records;
             self1 = self\<lparr>requests := requests self @ [kinesis_records]\<rparr>
         in case put_records api (requests self) kinesis_records of
              Inl e \<Rightarrow> Some (except_clause records e self1)
            | Inr response \<Rightarrow>
                (let failed_count =
                       (case FailedRecordCount response of None \<Rightarrow> 0 | Some c \<Rightarrow> c);
                     successful_count = int (length records) - failed_count;
                     total_bytes = sum_list (map (\<lambda>r. int (json_size api r)) records);
                     self2 = update_metrics successful_count failed_count total_bytes self1;
                     result = \<lparr>successful = successful_count, failed = failed_count\<rparr>
                 in if failed_count > 0 then
                      (case Records response of
                         None \<Rightarrow> Some (except_clause records KeyError self2)
                       | Some response_records \<Rightarrow>
                           (case handle_failed_records api records response_records self2 of
                              None \<Rightarrow> None
                            | Some (Inl e, self3) \<Rightarrow> Some (except_clause records e self3)
                            | Some (Inr u, self3) \<Rightarrow> Some (Inr result, self3)))
                    else Some (Inr result, self2))))"
  by (subst put_records_batch.simps)
     (auto simp: handle_failed_records_def Let_def
        split: sum.splits option.splits prod.splits Option.bind_splits)

lemma put_records_batch_Nil:
  "put_records_batch api [] self = Some (Inr \<lparr>successful = 0, failed = 0\<rparr>, self)"
  by (subst put_records_batch.simps) simp

lemma batch_transport_error:
  assumes "records \<noteq> []"
    and "put_records api (requests self) (prepare_batch api self records) = Inl e"
    and "e = BotoCoreError \<or> e = ClientError"
  shows "put_records_batch api records self =
     Some (Inr \<lparr>successful = 0, failed = int (length records)\<rparr>,
           self\<lparr>requests := requests self @ [prepare_batch api self records],
                metrics := (metrics self)\<lparr>total_records_failed :=
                   total_records_failed (metrics self) + int (length records)\<rparr>\<rparr>)"
  using assms
  by (subst put_records_batch.simps) (auto simp: except_clause_def Let_def)

lemma batch_without_failures:
  assumes ne: "records \<noteq> []"
    and resp: "put_records api (requests self) (prepare_batch api self records) = Inr response"
    and cnt: "FailedRecordCount response = Some 0"
  shows "put_records_batch api records self =
     Some (Inr \<lparr>successful = int (length records), failed = 0\<rparr>,
           update_metrics (int (length records)) 0
             (sum_list (map (\<lambda>r. int (json_size api r)) records))
             (self\<lparr>requests := requests self @ [prepare_batch api self records]\<rparr>))"
  using assms by (subst put_records_batch.simps) (simp add: Let_def)

lemma retry_result_discarded:
  assumes ne: "records \<noteq> []"
    and resp: "put_records api (requests self) (prepare_batch api self records) = Inr response"
    and cnt: "FailedRecordCount response = Some k" and pos: "0 < k"
    and recs: "Records response = Some rrs" and len: "length rrs \<le> length records"
    and fne: "failed_subset records rrs \<noteq> []"
    and retry: "put_records_batch api (failed_subset records rrs)
        ((update_metrics (int (length records) - k) k
            (sum_list (map (\<lambda>r. int (json_size api r)) records))
            (self\<lparr>requests := requests self @ [prepare_batch api self records]\<rparr>))
         \<lparr>slept := slept self + retry_delay self\<rparr>) = Some (Inr retried, self3)"
  shows "put_records_batch api records self =
     Some (Inr \<lparr>successful = int (length records) - k, failed = k\<rparr>, self3)"
proof -
  have cf: "collect_failed records 0 rrs [] = Inr (failed_subset records rrs)"
    using len by (rule collect_failed_subset)
  have sl: "slept (update_metrics a b c s) = slept s"
      "retry_delay (update_metrics a b c s) = retry_delay s"
    for a b c s by (simp_all add: update_metrics_def)
  show ?thesis
    apply (subst put_records_batch.simps)
    using ne resp cnt pos recs fne retry
    apply (simp add: Let_def cf sl)
    done
qed

lemma prepare_batch_cong:
  "partition_key_field s = partition_key_field s' \<Longrightarrow>
   prepare_batch api s rs = prepare_batch api s' rs"
  by (simp add: prepare_batch_def)

text \<open>
  C7. An empty record list returns \<open>{successful: 0, failed: 0}\<close> and the producer as it
  was: no request has joined \<open>requests\<close> (the transport was not called) and no counter
  of \<open>metrics\<close> has changed.
\<close>

theorem put_records_batch_empty:
  "put_records_batch api [] self = Some (Inr \<lparr>successful = 0, failed = 0\<rparr>, self) \<and>
   map_option (\<lambda>(out, self'). requests self') (put_records_batch api [] self)
     = Some (requests self) \<and>
   map_option (\<lambda>(out, self'). metrics self') (put_records_batch api [] self)
     = Some (metrics self)"
  by (simp add: put_records_batch_Nil)

text \<open>
  C5. For a non-empty list of \<open>n\<close> records, when the transport call raises BotoCoreError
  or ClientError, \<open>put_records_batch\<close> returns \<open>{successful: 0, failed: n}\<close> (it returns:
  no exception reaches the caller). The producer it leaves has \<open>total_records_failed\<close>
  larger by \<open>n\<close>, the other counters unchanged, and exactly one more request in
  \<open>requests\<close>: the batch is not sent again.
\<close>

theorem put_records_batch_transport_failure:
  assumes "records \<noteq> []"
    and "put_records api (requests self) (prepare_batch api self records) = Inl e"
    and "e = BotoCoreError \<or> e = ClientError"
  shows "put_records_batch api records self =
     Some (Inr \<lparr>successful = 0, failed = int (length records)\<rparr>,
           self\<lparr>requests := requests self @ [prepare_batch api self records],
                metrics := (metrics self)\<lparr>total_records_failed :=
                   total_records_failed (metrics self) + int (length records)\<rparr>\<rparr>)"
  using assms by (rule batch_transport_error)

theorem put_records_batch_transport_failure_witness:
  "put_records_batch api_failing [1, 2, 3 :: nat] producer0 =
     Some (Inr \<lparr>successful = 0, failed = 3\<rparr>,
           producer0\<lparr>requests := [prepare_batch api_failing producer0 [1, 2, 3 :: nat]],
                     metrics := \<lparr>total_records_sent = 0, total_records_failed = 3,
                                  total_batches_sent = 0, total_bytes_sent = 0\<rparr>\<rparr>)"
  using put_records_batch_transport_failure[of "[1, 2, 3 :: nat]" api_failing producer0 ClientError]
  by (simp add: api_failing_def producer0_def)

text \<open>
  C4, as the claim states it, fails. Ten records; the service flags those at indices 3
  and 7 and accepts both when they are sent again. The two are resubmitted (the second
  request) and succeed (\<open>total_records_sent\<close> is 10), and the call still returns
  \<open>{successful: 8, failed: 2}\<close>, not \<open>{successful: 10, failed: 0}\<close>.
\<close>

theorem retry_success_not_reported:
  "put_records_batch api_flaky [0, 1, 2, 3, 4, 5, 6, 7, 8, 9] producer0 =
     Some (Inr \<lparr>successful = 8, failed = 2\<rparr>,
       producer0\<lparr>metrics := \<lparr>total_records_sent = 10, total_records_failed = 2,
                               total_batches_sent = 2, total_bytes_sent = 24\<rparr>,
                 requests := [prepare_batch api_flaky producer0 [0, 1, 2, 3, 4, 5, 6, 7, 8, 9],
                              prepare_batch api_flaky producer0 [3, 7]],
                 slept := 1 / 2\<rparr>)"
  apply (subst put_records_batch.simps)
  apply (simp add: api_flaky_def producer0_def Let_def ok_entry_def bad_entry_def
      prepare_batch_def update_metrics_def)
  apply (subst put_records_batch.simps)
  apply (simp add: api_flaky_def producer0_def Let_def ok_entry_def bad_entry_def
      prepare_batch_def update_metrics_def)
  done

text \<open>
  C4, amended. When the first response to a batch of \<open>n\<close> records reports \<open>k > 0\<close>
  failed records, the records whose response entry, at the same index, has an error code
  are resubmitted through \<open>put_records_batch\<close> itself, after the sleep; when that
  resubmission returns, whatever counts it returns, the call returns the counts of the
  first response, \<open>{successful: n - k, failed: k}\<close>, and leaves the producer the
  resubmission left. The outcome of the retry shows in the metrics only.
\<close>

theorem put_records_batch_reports_first_response:
  assumes "records \<noteq> []"
    and "put_records api (requests self) (prepare_batch api self records) = Inr response"
    and "FailedRecordCount response = Some k" and "0 < k"
    and "Records response = Some rrs" and "length rrs \<le> length records"
    and "failed_subset records rrs \<noteq> []"
    and "put_records_batch api (failed_subset records rrs)
        ((update_metrics (int (length records) - k) k
            (sum_list (map (\<lambda>r. int (json_size api r)) records))
            (self\<lparr>requests := requests self @ [prepare_batch api self records]\<rparr>))
         \<lparr>slept := slept self + retry_delay self\<rparr>) = Some (Inr retried, self3)"
  shows "put_records_batch api records self =
     Some (Inr \<lparr>successful = int (length records) - k, failed = k\<rparr>, self3)"
  using assms by (rule retry_result_discarded)

text \<open>The witness: the two flagged records fail for good, the resubmission meeting a
  ClientError; it returns \<open>{successful: 0, failed: 2}\<close> and the call returns
  \<open>{successful: 8, failed: 2}\<close>.\<close>

theorem put_records_batch_reports_first_response_witness:
  "put_records_batch api_flaky_then_down [0, 1, 2, 3, 4, 5, 6, 7, 8, 9] producer0 =
     Some (Inr \<lparr>successful = 8, failed = 2\<rparr>,
       producer0\<lparr>metrics := \<lparr>total_records_sent = 8, total_records_failed = 4,
                               total_batches_sent = 1, total_bytes_sent = 20\<rparr>,
                 requests := [prepare_batch api_flaky_then_down producer0
                                [0, 1, 2, 3, 4, 5, 6, 7, 8, 9],
                              prepare_batch api_flaky_then_down producer0 [3, 7]],
                 slept := 1 / 2\<rparr>)"
proof -
  let ?api = api_flaky_then_down
  let ?records = "[0, 1, 2, 3, 4, 5, 6, 7, 8, 9 :: nat]"
  let ?rrs = "[ok_entry, ok_entry, ok_entry, bad_entry, ok_entry,
               ok_entry, ok_entry, bad_entry, ok_entry, ok_entry]"
  let ?s2 = "(update_metrics (int (length ?records) - 2) 2
            (sum_list (map (\<lambda>r. int (json_size ?api r)) ?records))
            (producer0\<lparr>requests := requests producer0 @ [prepare_batch ?api producer0 ?records]\<rparr>))
         \<lparr>slept := slept producer0 + retry_delay producer0\<rparr>"
  let ?s3 = "producer0\<lparr>metrics := \<lparr>total_records_sent = 8, total_records_failed = 4,
                               total_batches_sent = 1, total_bytes_sent = 20\<rparr>,
                 requests := [prepare_batch ?api producer0 ?records,
                              prepare_batch ?api producer0 [3, 7]],
                 slept := 1 / 2\<rparr>"
  have fs: "failed_subset ?records ?rrs = [3, 7]"
    by (simp add: failed_subset_def ok_entry_def bad_entry_def)
  have retry: "put_records_batch ?api (failed_subset ?records ?rrs) ?s2 =
      Some (Inr \<lparr>successful = 0, failed = 2\<rparr>, ?s3)"
    unfolding fs
    by (subst put_records_batch.simps)
       (simp add: api_flaky_then_down_def producer0_def Let_def prepare_batch_def
          update_metrics_def except_clause_def)
  have ne: "?records \<noteq> []" by simp
  have resp: "put_records ?api (requests producer0) (prepare_batch ?api producer0 ?records) =
      Inr \<lparr>FailedRecordCount = Some 2, Records = Some ?rrs\<rparr>"
    by (simp add: api_flaky_then_down_def producer0_def)
  have fne: "failed_subset ?records ?rrs \<noteq> []" unfolding fs by simp
  have "put_records_batch ?api ?records producer0 =
     Some (Inr \<lparr>successful = int (length ?records) - 2, failed = 2\<rparr>, ?s3)"
    by (rule put_records_batch_reports_first_response[OF ne resp _ _ _ _ fne retry]) simp_all
  then show ?thesis by simp
qed

text \<open>
  C10. The counters count attempts. Let the first response to \<open>n\<close> records flag \<open>k > 0\<close>
  of them (one entry per record, the reported count being the number of flagged
  entries), and let the resubmission of these \<open>k\<close> be accepted whole. Then the call
  returns, and it has added \<open>n\<close> to \<open>total_records_sent\<close>, \<open>k\<close> to
  \<open>total_records_failed\<close> (each retried record is in both), 2 to \<open>total_batches_sent\<close>
  and the bytes of the batch plus the bytes of the retried subset to
  \<open>total_bytes_sent\<close>: sent and failed together have grown by more than \<open>n\<close>.
\<close>

theorem metrics_count_every_attempt:
  assumes ne: "records \<noteq> []"
    and resp: "put_records api (requests self) (prepare_batch api self records) = Inr response"
    and recs: "Records response = Some rrs" and len: "length rrs = length records"
    and cnt: "FailedRecordCount response = Some (int (length (failed_subset records rrs)))"
    and fne: "failed_subset records rrs \<noteq> []"
    and retry_resp: "put_records api (requests self @ [prepare_batch api self records])
                  (prepare_batch api self (failed_subset records rrs)) = Inr retry_response"
    and retry_cnt: "FailedRecordCount retry_response = Some 0"
  shows "\<exists>self'. put_records_batch api records self =
        Some (Inr \<lparr>successful = int (length records) - int (length (failed_subset records rrs)),
                   failed = int (length (failed_subset records rrs))\<rparr>, self') \<and>
      total_records_sent (metrics self') =
        total_records_sent (metrics self) + int (length records) \<and>
      total_records_failed (metrics self') =
        total_records_failed (metrics self) + int (length (failed_subset records rrs)) \<and>
      total_batches_sent (metrics self') = total_batches_sent (metrics self) + 2 \<and>
      total_bytes_sent (metrics self') = total_bytes_sent (metrics self)
        + sum_list (map (\<lambda>r. int (json_size api r)) records)
        + sum_list (map (\<lambda>r. int (json_size api r)) (failed_subset records rrs)) \<and>
      int (length records)
        < (total_records_sent (metrics self') + total_records_failed (metrics self'))
          - (total_records_sent (metrics self) + total_records_failed (metrics self))"
proof -
  let ?k = "int (length (failed_subset records rrs))"
  let ?s2 = "(update_metrics (int (length records) - ?k) ?k
            (sum_list (map (\<lambda>r. int (json_size api r)) records))
            (self\<lparr>requests := requests self @ [prepare_batch api self records]\<rparr>))
         \<lparr>slept := slept self + retry_delay self\<rparr>"
  let ?s3 = "update_metrics ?k 0
             (sum_list (map (\<lambda>r. int (json_size api r)) (failed_subset records rrs)))
             (?s2\<lparr>requests := requests ?s2 @ [prepare_batch api ?s2 (failed_subset records rrs)]\<rparr>)"
  have pk: "prepare_batch api ?s2 (failed_subset records rrs) =
      prepare_batch api self (failed_subset records rrs)"
    by (rule prepare_batch_cong) (simp add: update_metrics_def)
  have rq: "requests ?s2 = requests self @ [prepare_batch api self records]"
    by (simp add: update_metrics_def)
  have retry: "put_records_batch api (failed_subset records rrs) ?s2 =
      Some (Inr \<lparr>successful = ?k, failed = 0\<rparr>, ?s3)"
    by (rule batch_without_failures[OF fne _ retry_cnt]) (simp only: rq pk retry_resp)
  have kpos: "0 < ?k" using fne by simp
  have first: "put_records_batch api records self =
      Some (Inr \<lparr>successful = int (length records) - ?k, failed = ?k\<rparr>, ?s3)"
    by (rule retry_result_discarded[OF ne resp cnt kpos recs _ fne retry]) (simp add: len)
  show ?thesis
    unfolding first using kpos
    by (simp add: update_metrics_def)
qed

theorem metrics_count_every_attempt_witness:
  "\<exists>self'. put_records_batch api_flaky [0, 1, 2, 3, 4, 5, 6, 7, 8, 9] producer0 =
        Some (Inr \<lparr>successful = 8, failed = 2\<rparr>, self') \<and>
      total_records_sent (metrics self') = 10 \<and>
      total_records_failed (metrics self') = 2 \<and>
      total_batches_sent (metrics self') = 2 \<and>
      total_bytes_sent (metrics self') = 24 \<and>
      (10 :: int) < total_records_sent (metrics self') + total_records_failed (metrics self')"
proof -
  let ?records = "[0, 1, 2, 3, 4, 5, 6, 7, 8, 9 :: nat]"
  let ?rrs = "[ok_entry, ok_entry, ok_entry, bad_entry, ok_entry,
               ok_entry, ok_entry, bad_entry, ok_entry, ok_entry]"
  have fs: "failed_subset ?records ?rrs = [3, 7]"
    by (simp add: failed_subset_def ok_entry_def bad_entry_def)
  have "\<exists>self'. put_records_batch api_flaky ?records producer0 =
        Some (Inr \<lparr>successful = int (length ?records) - int (length (failed_subset ?records ?rrs)),
                   failed = int (length (failed_subset ?records ?rrs))\<rparr>, self') \<and>
      total_records_sent (metrics self') =
        total_records_sent (metrics producer0) + int (length ?records) \<and>
      total_records_failed (metrics self') =
        total_records_failed (metrics producer0) + int (length (failed_subset ?records ?rrs)) \<and>
      total_batches_sent (metrics self') = total_batches_sent (metrics producer0) + 2 \<and>
      total_bytes_sent (metrics self') = total_bytes_sent (metrics producer0)
        + sum_list (map (\<lambda>r. int (json_size api_flaky r)) ?records)
        + sum_list (map (\<lambda>r. int (json_size api_flaky r)) (failed_subset ?records ?rrs)) \<and>
      int (length ?records)
        < (total_records_sent (metrics self') + total_records_failed (metrics self'))
          - (total_records_sent (metrics producer0) + total_records_failed (metrics producer0))"
  proof (rule metrics_count_every_attempt)
    show "?records \<noteq> []" by simp
    show "put_records api_flaky (requests producer0) (prepare_batch api_flaky producer0 ?records) =
      Inr \<lparr>FailedRecordCount = Some 2, Records = Some ?rrs\<rparr>"
      by (simp add: api_flaky_def producer0_def)
    show "Records \<lparr>FailedRecordCount = Some 2, Records = Some ?rrs\<rparr> = Some ?rrs" by simp
    show "length ?rrs = length ?records" by simp
    show "FailedRecordCount \<lparr>FailedRecordCount = Some 2, Records = Some ?rrs\<rparr> =
        Some (int (length (failed_subset ?records ?rrs)))"
      unfolding fs by simp
    show "failed_subset ?records ?rrs \<noteq> []" unfolding fs by simp
    show "put_records api_flaky (requests producer0 @ [prepare_batch api_flaky producer0 ?records])
        (prepare_batch api_flaky producer0 (failed_subset ?records ?rrs)) =
        Inr \<lparr>FailedRecordCount = Some 0, Records = Some [ok_entry, ok_entry]\<rparr>"
      unfolding fs by (simp add: api_flaky_def producer0_def prepare_batch_def)
    show "FailedRecordCount \<lparr>FailedRecordCount = Some 0, Records = Some [ok_entry, ok_entry]\<rparr>
        = Some 0" by simp
  qed
  then show ?thesis
    unfolding fs by (simp add: api_flaky_def producer0_def)
qed

section \<open>The producer loop\<close>











text \<open>\<open>generator_empty\<close> is what the constructor returns for zero merchants and zero
  customers.\<close>

lemma generator_empty_constructed:
  "TransactionGenerator_init (1 / 20) 0 0 None world0 = (Inr generator_empty, world0)"
  by (simp add: TransactionGenerator_init_def generate_merchants_def generate_customers_def
      generator_empty_def Let_def)









end
